theory Spec2Isabelle
  imports Complex_Main
begin

section \<open>Floating-point values and roundings\<close>

text \<open>
  A float is a real number, an infinity or NaN; signed zeros are not distinguished.
  Every arithmetic operation of the program rounds its exact result with a rounding
  \<open>rnd\<close>, which also decides when a result is too large and becomes an infinity. The
  program is modelled once, for an arbitrary rounding. Three roundings are used:
  \<^item> \<open>exact\<close>: no rounding and no overflow, the arithmetic of the real numbers;
  \<^item> \<open>ranged\<close>: no rounding, but a result of magnitude \<open>2 ^ 1024\<close> or more is an
    infinity, as for IEEE doubles;
  \<^item> \<open>double\<close>: IEEE binary64, round to nearest, ties to even, with subnormal numbers.

  Powers and square roots are taken to be correctly rounded, as the four basic
  operations are.
\<close>

datatype fl = Num real | PosInf | NegInf | NaN

type_synonym rounding = "real \<Rightarrow> fl"

definition exact :: rounding where
  "exact x = Num x"

definition ranged :: rounding where
  "ranged x = (if 2 ^ 1024 \<le> \<bar>x\<bar> then (if 0 < x then PosInf else NegInf) else Num x)"

text \<open>Rounding to the nearest integer, ties to the even one.\<close>

definition round_even :: "real \<Rightarrow> int" where
  "round_even q =
     (let f = \<lfloor>q\<rfloor>
      in if q - of_int f < 1 / 2 then f
         else if 1 / 2 < q - of_int f then f + 1
         else if even f then f else f + 1)"

text \<open>
  The exponent of the unit in the last place of the doubles around \<open>x\<close>: 52 below the
  exponent of \<open>x\<close>, and never below that of the subnormal numbers.
\<close>

definition ulp_exp :: "real \<Rightarrow> int" where
  "ulp_exp x = max \<lfloor>log 2 \<bar>x\<bar>\<rfloor> (- 1022) - 52"

definition double :: rounding where
  "double x =
     (if x = 0 then Num 0
      else let u = 2 powi ulp_exp x;
               y = of_int (round_even (x / u)) * u
           in if 2 ^ 1024 \<le> \<bar>y\<bar> then (if 0 < x then PosInf else NegInf) else Num y)"

text \<open>The order of the floats; NaN is not comparable.\<close>

fun fl_le :: "fl \<Rightarrow> fl \<Rightarrow> bool" where
  "fl_le (Num x) (Num y) = (x \<le> y)"
| "fl_le NaN b = False"
| "fl_le a NaN = False"
| "fl_le NegInf b = True"
| "fl_le a PosInf = True"
| "fl_le a b = False"

text \<open>
  What the theorems that hold for every rounding ask of it: it is monotone (so never
  NaN), it leaves 0 and 1 as they are, it rounds a whole number to a whole number, and
  a value it has produced is rounded to itself.
\<close>

definition sound_rounding :: "rounding \<Rightarrow> bool" where
  "sound_rounding rnd =
     ((\<forall>x y. x \<le> y \<longrightarrow> fl_le (rnd x) (rnd y)) \<and>
      rnd 0 = Num 0 \<and> rnd 1 = Num 1 \<and>
      (\<forall>n v. rnd (of_int n) = Num v \<longrightarrow> v = of_int \<lfloor>v\<rfloor>) \<and>
      (\<forall>x v. rnd x = Num v \<longrightarrow> rnd v = Num v))"

subsection \<open>IEEE operations\<close>

fun fl_neg :: "fl \<Rightarrow> fl" where
  "fl_neg (Num x) = Num (- x)"
| "fl_neg PosInf = NegInf"
| "fl_neg NegInf = PosInf"
| "fl_neg NaN = NaN"

fun fl_add :: "rounding \<Rightarrow> fl \<Rightarrow> fl \<Rightarrow> fl" where
  "fl_add rnd (Num x) (Num y) = rnd (x + y)"
| "fl_add rnd NaN b = NaN"
| "fl_add rnd a NaN = NaN"
| "fl_add rnd PosInf NegInf = NaN"
| "fl_add rnd NegInf PosInf = NaN"
| "fl_add rnd PosInf b = PosInf"
| "fl_add rnd NegInf b = NegInf"
| "fl_add rnd a PosInf = PosInf"
| "fl_add rnd a NegInf = NegInf"

definition fl_sub :: "rounding \<Rightarrow> fl \<Rightarrow> fl \<Rightarrow> fl" where
  "fl_sub rnd a b = fl_add rnd a (fl_neg b)"

text \<open>The sign of a float: \<open>-1\<close>, \<open>0\<close> or \<open>1\<close> (\<open>0\<close> for NaN).\<close>

fun fl_sgn :: "fl \<Rightarrow> real" where
  "fl_sgn (Num x) = sgn x"
| "fl_sgn PosInf = 1"
| "fl_sgn NegInf = - 1"
| "fl_sgn NaN = 0"

definition signed_inf :: "real \<Rightarrow> fl" where
  "signed_inf s = (if s = 0 then NaN else if 0 < s then PosInf else NegInf)"

fun fl_mul :: "rounding \<Rightarrow> fl \<Rightarrow> fl \<Rightarrow> fl" where
  "fl_mul rnd (Num x) (Num y) = rnd (x * y)"
| "fl_mul rnd NaN b = NaN"
| "fl_mul rnd a NaN = NaN"
| "fl_mul rnd a b = signed_inf (fl_sgn a * fl_sgn b)"

text \<open>Division as numpy has it: a division by zero gives an infinity or NaN.\<close>

fun fl_div :: "rounding \<Rightarrow> fl \<Rightarrow> fl \<Rightarrow> fl" where
  "fl_div rnd (Num x) (Num y) = (if y = 0 then signed_inf (sgn x) else rnd (x / y))"
| "fl_div rnd NaN b = NaN"
| "fl_div rnd a NaN = NaN"
| "fl_div rnd (Num x) b = Num 0"
| "fl_div rnd a (Num y) = (if y < 0 then fl_neg a else a)"
| "fl_div rnd a b = NaN"

fun fl_sqrt :: "rounding \<Rightarrow> fl \<Rightarrow> fl" where
  "fl_sqrt rnd (Num x) = (if x < 0 then NaN else rnd (sqrt x))"
| "fl_sqrt rnd PosInf = PosInf"
| "fl_sqrt rnd a = NaN"

text \<open>\<open>a < b\<close> on floats; a comparison with NaN is false.\<close>

definition fl_less :: "fl \<Rightarrow> fl \<Rightarrow> bool" where
  "fl_less a b = (fl_le a b \<and> a \<noteq> b)"

fun is_inf :: "fl \<Rightarrow> bool" where
  "is_inf PosInf = True"
| "is_inf NegInf = True"
| "is_inf a = False"

fun is_num :: "fl \<Rightarrow> bool" where
  "is_num (Num x) = True"
| "is_num a = False"

section \<open>Python values and operators\<close>

text \<open>
  A raised exception is \<open>Inl\<close> of an \<open>error\<close>. The complex number that
  \<open>float ** float\<close> yields for a negative base and a fractional exponent is a value of
  its own constructor; complex arithmetic is not rounded, and a complex number with an
  infinite part is not represented.
\<close>

datatype error = ZeroDivisionError | OverflowError | ValueError | KeyError

definition and_then :: "error + 'a \<Rightarrow> ('a \<Rightarrow> error + 'b) \<Rightarrow> error + 'b" where
  "and_then r f = (case r of Inl e \<Rightarrow> Inl e | Inr v \<Rightarrow> f v)"

datatype pynum = PyFloat fl | PyComplex complex

fun to_complex :: "pynum \<Rightarrow> complex" where
  "to_complex (PyFloat (Num x)) = of_real x"
| "to_complex (PyFloat a) = 0"
| "to_complex (PyComplex z) = z"

text \<open>Python's \<open>.imag\<close>: zero on a float.\<close>

fun num_imag :: "pynum \<Rightarrow> real" where
  "num_imag (PyFloat x) = 0"
| "num_imag (PyComplex z) = Im z"

text \<open>\<open>isinstance(v, float)\<close>: the value is a float, not a complex number.\<close>

fun is_float :: "pynum \<Rightarrow> bool" where
  "is_float (PyFloat x) = True"
| "is_float (PyComplex z) = False"

fun num_add :: "rounding \<Rightarrow> pynum \<Rightarrow> pynum \<Rightarrow> pynum" where
  "num_add rnd (PyFloat x) (PyFloat y) = PyFloat (fl_add rnd x y)"
| "num_add rnd a b = PyComplex (to_complex a + to_complex b)"

fun num_sub :: "rounding \<Rightarrow> pynum \<Rightarrow> pynum \<Rightarrow> pynum" where
  "num_sub rnd (PyFloat x) (PyFloat y) = PyFloat (fl_sub rnd x y)"
| "num_sub rnd a b = PyComplex (to_complex a - to_complex b)"

fun num_mul :: "rounding \<Rightarrow> pynum \<Rightarrow> pynum \<Rightarrow> pynum" where
  "num_mul rnd (PyFloat x) (PyFloat y) = PyFloat (fl_mul rnd x y)"
| "num_mul rnd a b = PyComplex (to_complex a * to_complex b)"

fun num_is_zero :: "pynum \<Rightarrow> bool" where
  "num_is_zero (PyFloat x) = (x = Num 0)"
| "num_is_zero (PyComplex z) = (z = 0)"

text \<open>Python's \<open>/\<close> on floats: a zero divisor raises.\<close>

definition py_div :: "rounding \<Rightarrow> fl \<Rightarrow> fl \<Rightarrow> error + fl" where
  "py_div rnd x y = (if y = Num 0 then Inl ZeroDivisionError else Inr (fl_div rnd x y))"

fun num_div :: "rounding \<Rightarrow> pynum \<Rightarrow> pynum \<Rightarrow> error + pynum" where
  "num_div rnd (PyFloat x) (PyFloat y) = and_then (py_div rnd x y) (\<lambda>q. Inr (PyFloat q))"
| "num_div rnd a b =
     (if num_is_zero b then Inl ZeroDivisionError
      else Inr (PyComplex (to_complex a / to_complex b)))"

text \<open>
  The result of a conversion or of a power of finite operands: Python raises
  OverflowError when it is not a finite number.
\<close>

definition finite_or_raise :: "fl \<Rightarrow> error + fl" where
  "finite_or_raise p = (case p of Num v \<Rightarrow> Inr (Num v) | _ \<Rightarrow> Inl OverflowError)"

text \<open>
  An \<open>int\<close> operand of a float operation is converted to the nearest float first; an
  \<open>int\<close> too large for a float raises OverflowError.
\<close>

definition int_to_float :: "rounding \<Rightarrow> int \<Rightarrow> error + fl" where
  "int_to_float rnd n = finite_or_raise (rnd (of_int n))"

text \<open>
  The power function of C: \<open>1\<close> for a zero exponent and for the base \<open>1\<close>; an infinity
  for zero to a negative power; NaN for a negative base with a fractional exponent; an
  infinity when the result is out of range.
\<close>

fun fl_pow :: "rounding \<Rightarrow> fl \<Rightarrow> fl \<Rightarrow> fl" where
  "fl_pow rnd (Num x) (Num y) =
     (if y = 0 \<or> x = 1 then Num 1
      else if x = 0 then (if y < 0 then PosInf else Num 0)
      else if x < 0 then
        (if y = of_int \<lfloor>y\<rfloor>
         then (if x = - 1 then Num (x powi \<lfloor>y\<rfloor>) else rnd (x powi \<lfloor>y\<rfloor>))
         else NaN)
      else rnd (x powr y))"
| "fl_pow rnd (Num x) b =
     (if b = NaN then (if x = 1 then Num 1 else NaN)
      else if \<bar>x\<bar> = 1 then Num 1
      else if (\<bar>x\<bar> < 1) = (b = NegInf) then PosInf else Num 0)"
| "fl_pow rnd a (Num y) =
     (if y = 0 then Num 1
      else if a = NaN then NaN
      else if y < 0 then Num 0
      else if a = NegInf \<and> y = of_int \<lfloor>y\<rfloor> \<and> odd \<lfloor>y\<rfloor> then NegInf
      else PosInf)"
| "fl_pow rnd a b =
     (if a = NaN \<or> b = NaN then NaN else if b = NegInf then Num 0 else PosInf)"

text \<open>
  \<open>x ** y\<close> for floats \<open>x\<close> and \<open>y\<close>. For finite operands: zero to a negative power
  raises ZeroDivisionError; a negative base with a fractional exponent gives the complex
  number of modulus \<open>|x| ** y\<close> and argument \<open>pi * y\<close>; otherwise the result is that
  of C's power function, and OverflowError is raised when it is out of range. An
  infinite or NaN operand raises nothing.
\<close>

fun py_pow :: "rounding \<Rightarrow> fl \<Rightarrow> fl \<Rightarrow> error + pynum" where
  "py_pow rnd (Num x) (Num y) =
     (if x = 0 \<and> y < 0 then Inl ZeroDivisionError
      else if x < 0 \<and> y \<noteq> of_int \<lfloor>y\<rfloor>
      then Inr (PyComplex (of_real (\<bar>x\<bar> powr y) * cis (pi * y)))
      else and_then (finite_or_raise (fl_pow rnd (Num x) (Num y))) (\<lambda>p. Inr (PyFloat p)))"
| "py_pow rnd a b = Inr (PyFloat (fl_pow rnd a b))"

text \<open>\<open>x ** n\<close> for a float \<open>x\<close> and an \<open>int\<close> \<open>n\<close>.\<close>

definition py_pow_int :: "rounding \<Rightarrow> fl \<Rightarrow> int \<Rightarrow> error + pynum" where
  "py_pow_int rnd x n = and_then (int_to_float rnd n) (py_pow rnd x)"

text \<open>\<open>x ** n\<close> for a float or complex \<open>x\<close> and an \<open>int\<close> \<open>n\<close>.\<close>

fun num_pow_int :: "rounding \<Rightarrow> pynum \<Rightarrow> int \<Rightarrow> error + pynum" where
  "num_pow_int rnd (PyFloat x) n = py_pow_int rnd x n"
| "num_pow_int rnd (PyComplex z) n =
     (if 0 \<le> n then Inr (PyComplex (z ^ nat n))
      else if z = 0 then Inl ZeroDivisionError
      else Inr (PyComplex (1 / z ^ nat (- n))))"

section \<open>Valuation engine (financial\_calculator.py)\<close>

text \<open>
  The amounts and rates passed to the functions are finite floats, the number of years
  is an \<open>int\<close>.
\<close>

definition calculate_future_value ::
    "rounding \<Rightarrow> real \<Rightarrow> real \<Rightarrow> int \<Rightarrow> error + pynum" where
  "calculate_future_value rnd present_value inflation_rate years =
     and_then (py_pow_int rnd (fl_add rnd (Num 1) (Num inflation_rate)) years)
       (\<lambda>p. Inr (num_mul rnd (PyFloat (Num present_value)) p))"

definition calculate_one_time_investment ::
    "rounding \<Rightarrow> real \<Rightarrow> real \<Rightarrow> int \<Rightarrow> error + pynum" where
  "calculate_one_time_investment rnd future_value expected_return years =
     (if years \<le> 0 \<or> expected_return \<le> 0 then Inr (PyFloat (Num future_value))
      else and_then (py_pow_int rnd (fl_add rnd (Num 1) (Num expected_return)) years)
             (\<lambda>p. num_div rnd (PyFloat (Num future_value)) p))"

text \<open>\<open>future_value / months\<close> for an \<open>int\<close> \<open>months\<close>.\<close>

definition div_by_int :: "rounding \<Rightarrow> fl \<Rightarrow> int \<Rightarrow> error + pynum" where
  "div_by_int rnd x n =
     and_then (int_to_float rnd n) (\<lambda>d. num_div rnd (PyFloat x) (PyFloat d))"

text \<open>\<open>(1 + expected_return) ** (1/12) - 1\<close>, which two of the functions compute.\<close>

definition monthly_rate_of :: "rounding \<Rightarrow> real \<Rightarrow> error + pynum" where
  "monthly_rate_of rnd expected_return =
     and_then
       (py_pow rnd (fl_add rnd (Num 1) (Num expected_return)) (fl_div rnd (Num 1) (Num 12)))
       (\<lambda>p. Inr (num_sub rnd p (PyFloat (Num 1))))"

definition calculate_monthly_investment ::
    "rounding \<Rightarrow> real \<Rightarrow> real \<Rightarrow> int \<Rightarrow> error + pynum" where
  "calculate_monthly_investment rnd future_value expected_return years =
     (if years \<le> 0 \<or> expected_return \<le> 0 then
        (if years > 0 then div_by_int rnd (Num future_value) (years * 12)
         else Inr (PyFloat (Num future_value)))
      else
        and_then (monthly_rate_of rnd expected_return) (\<lambda>monthly_rate.
          let months = years * 12
          in and_then (num_pow_int rnd (num_add rnd (PyFloat (Num 1)) monthly_rate) months)
               (\<lambda>q.
                 let denominator = num_sub rnd q (PyFloat (Num 1))
                 in if num_is_zero denominator
                    then div_by_int rnd (Num future_value) months
                    else num_div rnd (num_mul rnd (PyFloat (Num future_value)) monthly_rate)
                           denominator)))"





definition calculate_asset_allocation :: "string \<Rightarrow> real \<Rightarrow> (string \<times> real) list" where
  "calculate_asset_allocation risk_profile amount =
     (if risk_profile = ''Conservative'' then
        [(''Equity'', 3 / 10), (''Debt'', 6 / 10), (''Gold'', 1 / 10)]
      else if risk_profile = ''Moderate'' then
        [(''Equity'', 5 / 10), (''Debt'', 4 / 10), (''Gold'', 1 / 10)]
      else if risk_profile = ''Aggressive'' then
        [(''Equity'', 7 / 10), (''Debt'', 25 / 100), (''Gold'', 5 / 100)]
      else
        [(''Equity'', 5 / 10), (''Debt'', 4 / 10), (''Gold'', 1 / 10)])"

text \<open>
  The contribution in the words of the specification (section 4.1), to be compared with
  \<open>calculate_monthly_investment\<close>: the four cases, computed on floats with total
  operations; only the two powers and the conversion of the number of months can fail,
  by being out of range.
\<close>

definition pow_or_overflow :: "rounding \<Rightarrow> fl \<Rightarrow> fl \<Rightarrow> error + fl" where
  "pow_or_overflow rnd a b =
     (if is_num a \<and> is_num b \<and> \<not> is_num (fl_pow rnd a b) then Inl OverflowError
      else Inr (fl_pow rnd a b))"

definition monthly_contribution_spec ::
    "rounding \<Rightarrow> real \<Rightarrow> real \<Rightarrow> int \<Rightarrow> error + fl" where
  "monthly_contribution_spec rnd F r years =
     (if years \<le> 0 then Inr (Num F)
      else and_then (int_to_float rnd (12 * years)) (\<lambda>months.
        if r \<le> 0 then Inr (fl_div rnd (Num F) months)
        else
          and_then
            (pow_or_overflow rnd (fl_add rnd (Num 1) (Num r)) (fl_div rnd (Num 1) (Num 12)))
            (\<lambda>p.
              let monthlyRate = fl_sub rnd p (Num 1)
              in and_then (pow_or_overflow rnd (fl_add rnd (Num 1) monthlyRate) months)
                   (\<lambda>q.
                     let denominator = fl_sub rnd q (Num 1)
                     in Inr (if denominator = Num 0 then fl_div rnd (Num F) months
                             else fl_div rnd (fl_mul rnd (Num F) monthlyRate)
                                    denominator)))))"

text \<open>A returned float: \<open>Inr (PyFloat v)\<close> for some \<open>v\<close>.\<close>

definition returns_float :: "error + pynum \<Rightarrow> bool" where
  "returns_float res = (case res of Inr (PyFloat v) \<Rightarrow> True | _ \<Rightarrow> False)"

section \<open>Static recommendation tables (recommendation\_engine.py)\<close>

datatype setting = Number real | Text string | Names "string list"

definition stock_risk_mappings :: "(string \<times> (string \<times> setting) list) list" where
  "stock_risk_mappings =
     [(''Conservative'',
         [(''min_market_cap'', Number 50000), (''max_beta'', Number (8 / 10)),
          (''min_dividend_yield'', Number 1),
          (''sectors'', Names [''FMCG'', ''IT'', ''Pharma''])]),
      (''Moderate'',
         [(''min_market_cap'', Number 20000), (''max_beta'', Number (12 / 10)),
          (''min_dividend_yield'', Number (5 / 10)),
          (''sectors'', Names [''Banking'', ''Auto'', ''Chemicals'', ''IT''])]),
      (''Aggressive'',
         [(''min_market_cap'', Number 5000), (''max_beta'', Number (15 / 10)),
          (''min_dividend_yield'', Number 0),
          (''sectors'', Names [''Auto'', ''Banking'', ''Metal'', ''Realty''])])]"

definition stock_goal_adjustments ::
    "(string \<times> (string \<times> (string \<times> setting) list) list) list" where
  "stock_goal_adjustments =
     [(''Retirement'',
         [(''Conservative'', [(''min_dividend_yield'', Number 2)]),
          (''Moderate'', [(''min_dividend_yield'', Number 1)]),
          (''Aggressive'', [(''min_dividend_yield'', Number (5 / 10))])]),
      (''Child Education'',
         [(''Conservative'', [(''max_beta'', Number (7 / 10))]),
          (''Moderate'', [(''max_beta'', Number 1)]),
          (''Aggressive'', [(''max_beta'', Number (13 / 10))])])]"

definition stock_universe :: "(string \<times> string list) list" where
  "stock_universe =
     [(''Conservative'',
         [''TCS.NS'', ''HINDUNILVR.NS'', ''NESTLEIND.NS'', ''SUNPHARMA.NS'', ''BAJAJFINSV.NS'',
          ''HDFCBANK.NS'', ''ITC.NS'', ''ASIANPAINT.NS'', ''POWERGRID.NS'', ''NTPC.NS'']),
      (''Moderate'',
         [''INFY.NS'', ''RELIANCE.NS'', ''HDFCBANK.NS'', ''ICICIBANK.NS'', ''KOTAKBANK.NS'',
          ''TCS.NS'', ''AXISBANK.NS'', ''MARUTI.NS'', ''HINDUNILVR.NS'', ''BAJAJFINSV.NS'']),
      (''Aggressive'',
         [''RELIANCE.NS'', ''TATAMOTORS.NS'', ''TATASTEEL.NS'', ''JINDALSTEL.NS'', ''SBIN.NS'',
          ''LT.NS'', ''M&M.NS'', ''INDUSINDBK.NS'', ''ADANIPORTS.NS'', ''HINDALCO.NS''])]"

text \<open>A dictionary is an association list; \<open>d[k] = v\<close> replaces or appends the entry.\<close>

fun dict_set :: "('k \<times> 'v) list \<Rightarrow> 'k \<Rightarrow> 'v \<Rightarrow> ('k \<times> 'v) list" where
  "dict_set [] k v = [(k, v)]"
| "dict_set ((k', v') # d) k v = (if k' = k then (k, v) # d else (k', v') # dict_set d k v)"

text \<open>
  The table lookups \<open>stock_universe[risk_profile]\<close> and \<open>stock_universe["Moderate"]\<close>:
  a missing key would raise KeyError.
\<close>

definition dict_get :: "('k \<times> 'v) list \<Rightarrow> 'k \<Rightarrow> error + 'v" where
  "dict_get d k = (case map_of d k of None \<Rightarrow> Inl KeyError | Some v \<Rightarrow> Inr v)"

definition recommend_stocks :: "string \<Rightarrow> string \<Rightarrow> real \<Rightarrow> error + string list" where
  "recommend_stocks risk_profile goal_type amount_needed =
     (let risk_profile =
            (if map_of stock_risk_mappings risk_profile = None then ''Moderate''
             else risk_profile);
          risk_mappings =
            (case map_of stock_goal_adjustments goal_type of
               None \<Rightarrow> stock_risk_mappings
             | Some by_profile \<Rightarrow>
                 (case map_of by_profile risk_profile of
                    None \<Rightarrow> stock_risk_mappings
                  | Some adjustments \<Rightarrow>
                      (case map_of stock_risk_mappings risk_profile of
                         None \<Rightarrow> stock_risk_mappings
                       | Some characteristics \<Rightarrow>
                           dict_set stock_risk_mappings risk_profile
                             (fold (\<lambda>(key, v) c. dict_set c key v) adjustments
                                characteristics))))
      in if map_of stock_universe risk_profile \<noteq> None
         then map_sum id (take 5) (dict_get stock_universe risk_profile)
         else map_sum id (take 5) (dict_get stock_universe ''Moderate''))"

definition mf_universe :: "(string \<times> string list) list" where
  "mf_universe =
     [(''Conservative'',
         [''HDFCDBT.BO'', ''ICBPRUD.BO'', ''AXBBND.BO'', ''SMCBALQ.BO'', ''TBABRG.BO'']),
      (''Moderate'',
         [''HDFCSF.BO'', ''ICBPBAQ.BO'', ''KOTBLD.BO'', ''UTSMCP.BO'', ''AXISMQ.BO'']),
      (''Aggressive'',
         [''HDFCMQ.BO'', ''ICICGR.BO'', ''NIPPCQ.BO'', ''KOTSMQ.BO'', ''AXISSQ.BO''])]"

definition mf_risk_mappings :: "(string \<times> (string \<times> setting) list) list" where
  "mf_risk_mappings =
     [(''Conservative'',
         [(''fund_types'', Names [''Debt'', ''Hybrid'']), (''max_volatility'', Number 10),
          (''min_return'', Number 7)]),
      (''Moderate'',
         [(''fund_types'', Names [''Hybrid'', ''Equity'']), (''max_volatility'', Number 15),
          (''min_return'', Number 10)]),
      (''Aggressive'',
         [(''fund_types'', Names [''Equity'', ''Sectoral'']), (''max_volatility'', Number 20),
          (''min_return'', Number 12)])]"

definition mf_goal_adjustments :: "(string \<times> (string \<times> setting) list) list" where
  "mf_goal_adjustments =
     [(''Retirement'',
         [(''timeframe'', Text ''Long Term''), (''preferred_types'', Names [''Equity'', ''Index''])]),
      (''Child Education'',
         [(''timeframe'', Text ''Medium Term''),
          (''preferred_types'', Names [''Hybrid'', ''Balanced''])]),
      (''Marriage'',
         [(''timeframe'', Text ''Medium Term''), (''preferred_types'', Names [''Hybrid'', ''Debt''])]),
      (''New House'',
         [(''timeframe'', Text ''Medium Term''), (''preferred_types'', Names [''Debt'', ''Hybrid''])])]"

text \<open>
  \<open>recommend_mutual_funds\<close> builds its two dictionaries and never reads them; only the
  lookup in \<open>mf_universe\<close> reaches the result.
\<close>

definition recommend_mutual_funds :: "string \<Rightarrow> string \<Rightarrow> real \<Rightarrow> error + string list" where
  "recommend_mutual_funds risk_profile goal_type amount_needed =
     (let risk_mappings = mf_risk_mappings;
          goal_adjustments = mf_goal_adjustments
      in if map_of mf_universe risk_profile \<noteq> None
         then map_sum id (take 5) (dict_get mf_universe risk_profile)
         else map_sum id (take 5) (dict_get mf_universe ''Moderate''))"

text \<open>\<open>get_portfolio_weights\<close>: equal weights, whatever the risk profile.\<close>

definition get_portfolio_weights :: "string list \<Rightarrow> string \<Rightarrow> real list" where
  "get_portfolio_weights tickers risk_profile =
     (let n = length tickers
      in if n = 0 then [] else replicate n (1 / real n))"

section \<open>Ranking engine (simple\_ml\_recommendation)\<close>

text \<open>
  \<open>historical_data\<close> is a dictionary from ticker to a price table, in insertion order:
  an association list whose second components are the \<open>Close\<close> columns, the empty list
  for an empty table. Closes are positive reals (section 3 of the specification); the
  infinities that numpy produces on a zero close are not represented, so the statements
  about the values of computed features are made for positive closes.

  A float that may be NaN is a \<open>real option\<close>, \<open>None\<close> being NaN: pandas returns NaN
  for the mean of no returns and for the sample standard deviation of fewer than two,
  and NaN propagates through arithmetic.
\<close>

type_synonym nanfloat = "real option"

text \<open>\<open>data['Close'].pct_change().dropna()\<close>\<close>

fun pct_change :: "real list \<Rightarrow> real list" where
  "pct_change (a # b # cs) = (b / a - 1) # pct_change (b # cs)"
| "pct_change cs = []"

text \<open>\<open>Series.mean()\<close>\<close>

definition mean :: "real list \<Rightarrow> nanfloat" where
  "mean xs = (if xs = [] then None else Some (sum_list xs / real (length xs)))"

text \<open>\<open>Series.std()\<close>, the sample standard deviation (one degree of freedom removed)\<close>

definition std :: "real list \<Rightarrow> nanfloat" where
  "std xs =
     (if length xs < 2 then None
      else let mu = sum_list xs / real (length xs)
           in Some (sqrt (sum_list (map (\<lambda>x. (x - mu) ^ 2) xs) / real (length xs - 1))))"

text \<open>\<open>Series.cummax()\<close>\<close>

fun cummax_from :: "real \<Rightarrow> real list \<Rightarrow> real list" where
  "cummax_from m [] = []"
| "cummax_from m (c # cs) = max m c # cummax_from (max m c) cs"

fun cummax :: "real list \<Rightarrow> real list" where
  "cummax [] = []"
| "cummax (c # cs) = c # cummax_from c cs"

text \<open>\<open>Series.min()\<close>\<close>

fun series_min :: "real list \<Rightarrow> nanfloat" where
  "series_min [] = None"
| "series_min (x # xs) = Some (fold min xs x)"

text \<open>The four features of one non-empty table, as the loop body computes them.\<close>

definition annual_return :: "real list \<Rightarrow> nanfloat" where
  "annual_return close = map_option (\<lambda>m. (1 + m) ^ 252 - 1) (mean (pct_change close))"

definition volatility :: "real list \<Rightarrow> nanfloat" where
  "volatility close = map_option (\<lambda>s. s * sqrt 252) (std (pct_change close))"

definition sharpe :: "real list \<Rightarrow> nanfloat" where
  "sharpe close =
     (let risk_free_rate = 5 / 100
      in case volatility close of
           None \<Rightarrow> Some 0
         | Some v \<Rightarrow>
             if v > 0 then map_option (\<lambda>a. (a - risk_free_rate) / v) (annual_return close)
             else Some 0)"

definition drawdown :: "real list \<Rightarrow> nanfloat" where
  "drawdown close = series_min (map (\<lambda>(c, m). c / m - 1) (zip close (cummax close)))"

record features =
  f_return :: "nanfloat list"
  f_volatility :: "nanfloat list"
  f_sharpe :: "nanfloat list"
  f_max_dd :: "nanfloat list"

definition no_features :: features where
  "no_features = \<lparr>f_return = [], f_volatility = [], f_sharpe = [], f_max_dd = []\<rparr>"

text \<open>The loop over \<open>historical_data.items()\<close>: an empty table is skipped.\<close>

fun collect_features :: "(string \<times> real list) list \<Rightarrow> features \<Rightarrow> features" where
  "collect_features [] fs = fs"
| "collect_features ((ticker, close) # rest) fs =
     (if close = [] then collect_features rest fs
      else collect_features rest
             \<lparr>f_return = f_return fs @ [annual_return close],
              f_volatility = f_volatility fs @ [volatility close],
              f_sharpe = f_sharpe fs @ [sharpe close],
              f_max_dd = f_max_dd fs @ [drawdown close]\<rparr>)"

text \<open>
  \<open>pd.DataFrame({...})\<close> from the ticker list and the four feature lists: columns of
  different lengths raise ValueError.
\<close>

definition data_frame :: "string list \<Rightarrow> features \<Rightarrow> error + string list \<times> features" where
  "data_frame tickers fs =
     (if length (f_return fs) = length tickers \<and> length (f_volatility fs) = length tickers \<and>
         length (f_sharpe fs) = length tickers \<and> length (f_max_dd fs) = length tickers
      then Inr (tickers, fs) else Inl ValueError)"

fun dropna :: "nanfloat list \<Rightarrow> real list" where
  "dropna [] = []"
| "dropna (None # xs) = dropna xs"
| "dropna (Some x # xs) = x # dropna xs"

text \<open>
  \<open>MinMaxScaler().fit_transform\<close> on one column, feature range (0, 1): minimum and
  maximum are taken over the values that are not NaN, a zero range is replaced by 1,
  and each value becomes \<open>x * scale - data_min * scale\<close>; NaN stays NaN.
\<close>

definition fit_transform :: "nanfloat list \<Rightarrow> nanfloat list" where
  "fit_transform col =
     (case dropna col of
        [] \<Rightarrow> map (\<lambda>x. None) col
      | v # vs \<Rightarrow>
          let data_min = fold min vs v;
              data_max = fold max vs v;
              data_range = data_max - data_min;
              scale = 1 / (if data_range = 0 then 1 else data_range);
              shift = 0 - data_min * scale
          in map (map_option (\<lambda>x. x * scale + shift)) col)"

record norms =
  return_norm :: "nanfloat list"
  sharpe_norm :: "nanfloat list"
  volatility_norm :: "nanfloat list"
  max_dd_norm :: "nanfloat list"

text \<open>The two normalisation loops; a column without rows is assigned the scalar 0.\<close>

definition normalize :: "features \<Rightarrow> norms" where
  "normalize df =
     \<lparr>return_norm =
        (if f_return df \<noteq> [] then fit_transform (f_return df) else []),
      sharpe_norm =
        (if f_sharpe df \<noteq> [] then fit_transform (f_sharpe df) else []),
      volatility_norm =
        (if f_volatility df \<noteq> []
         then map (map_option (\<lambda>x. 1 - x)) (fit_transform (f_volatility df)) else []),
      max_dd_norm =
        (if f_max_dd df \<noteq> []
         then map (map_option (\<lambda>x. 1 - x)) (fit_transform (f_max_dd df)) else [])\<rparr>"

record weight =
  w_return :: real
  w_volatility :: real
  w_sharpe :: real
  w_max_dd :: real

definition weights :: "(string \<times> weight) list" where
  "weights =
     [(''Conservative'',
         \<lparr>w_return = 2 / 10, w_volatility = 4 / 10, w_sharpe = 3 / 10, w_max_dd = 1 / 10\<rparr>),
      (''Moderate'',
         \<lparr>w_return = 3 / 10, w_volatility = 3 / 10, w_sharpe = 3 / 10, w_max_dd = 1 / 10\<rparr>),
      (''Aggressive'',
         \<lparr>w_return = 4 / 10, w_volatility = 2 / 10, w_sharpe = 3 / 10, w_max_dd = 1 / 10\<rparr>)]"

text \<open>\<open>weights.get(risk_profile, weights["Moderate"])\<close>\<close>

definition weights_get :: "string \<Rightarrow> error + weight" where
  "weights_get risk_profile =
     and_then (dict_get weights ''Moderate'')
       (\<lambda>d. Inr (case map_of weights risk_profile of None \<Rightarrow> d | Some w \<Rightarrow> w))"

definition nan_add :: "nanfloat \<Rightarrow> nanfloat \<Rightarrow> nanfloat" where
  "nan_add a b = (case (a, b) of (Some x, Some y) \<Rightarrow> Some (x + y) | _ \<Rightarrow> None)"

definition nan_scale :: "real \<Rightarrow> nanfloat \<Rightarrow> nanfloat" where
  "nan_scale k a = map_option (\<lambda>x. k * x) a"

definition score_row :: "weight \<Rightarrow> nanfloat \<Rightarrow> nanfloat \<Rightarrow> nanfloat \<Rightarrow> nanfloat \<Rightarrow> nanfloat" where
  "score_row w r v s d =
     nan_add (nan_add (nan_add (nan_scale (w_return w) r) (nan_scale (w_volatility w) v))
                (nan_scale (w_sharpe w) s))
       (nan_scale (w_max_dd w) d)"

definition score_column :: "weight \<Rightarrow> norms \<Rightarrow> nanfloat list" where
  "score_column w n =
     map (\<lambda>(r, v, s, d). score_row w r v s d)
       (zip (return_norm n) (zip (volatility_norm n) (zip (sharpe_norm n) (max_dd_norm n))))"

text \<open>
  \<open>df.sort_values("score", ascending=False)\<close> on the rows (ticker, score): the rows
  whose score is not NaN in descending order of score, then the rows whose score is NaN,
  in their input order. Rows of equal score keep their input order: pandas reverses the
  rows, sorts ascending and reverses again, and the model takes the sort underneath to
  be stable. (pandas passes \<open>kind="quicksort"\<close> to numpy, which documents that kind as
  not stable in general; its scalar implementation is an insertion sort on tables of at
  most 16 rows.)
\<close>

fun scored :: "(string \<times> nanfloat) list \<Rightarrow> (string \<times> real) list" where
  "scored [] = []"
| "scored ((t, None) # rows) = scored rows"
| "scored ((t, Some x) # rows) = (t, x) # scored rows"

fun unscored :: "(string \<times> nanfloat) list \<Rightarrow> string list" where
  "unscored [] = []"
| "unscored ((t, None) # rows) = t # unscored rows"
| "unscored ((t, Some x) # rows) = unscored rows"

definition sort_values :: "(string \<times> nanfloat) list \<Rightarrow> string list" where
  "sort_values rows = map fst (sort_key (\<lambda>(t, x). - x) (scored rows)) @ unscored rows"

text \<open>The function up to the normalised columns, and up to the score column.\<close>

definition normalized_features :: "(string \<times> real list) list \<Rightarrow> error + string list \<times> norms" where
  "normalized_features historical_data =
     (let tickers = map fst historical_data
      in and_then (data_frame tickers (collect_features historical_data no_features))
           (\<lambda>(ticker, df). Inr (ticker, normalize df)))"

definition score_table ::
    "(string \<times> real list) list \<Rightarrow> string \<Rightarrow> error + (string \<times> nanfloat) list" where
  "score_table historical_data risk_profile =
     and_then (normalized_features historical_data) (\<lambda>(ticker, n).
       and_then (weights_get risk_profile) (\<lambda>w. Inr (zip ticker (score_column w n))))"

definition simple_ml_recommendation ::
    "(string \<times> real list) list \<Rightarrow> string \<Rightarrow> error + string list" where
  "simple_ml_recommendation historical_data risk_profile =
     (if historical_data = [] then Inr []
      else and_then (score_table historical_data risk_profile)
             (\<lambda>rows. Inr (sort_values rows)))"

text \<open>Vocabulary of the statements about the ranking engine.\<close>







section \<open>Properties of the roundings\<close>


lemma fl_le_ranged: "x \<le> y \<Longrightarrow> fl_le (ranged x) (ranged y)"
  by (simp add: ranged_def)

lemma ranged_whole: "ranged (of_int n) = Num v \<Longrightarrow> v = of_int \<lfloor>v\<rfloor>"
  by (auto simp add: ranged_def split: if_splits)

lemma sound_ranged: "sound_rounding ranged"
  unfolding sound_rounding_def
proof (intro conjI allI impI)
  fix x y :: real
  assume "x \<le> y"
  then show "fl_le (ranged x) (ranged y)" by (rule fl_le_ranged)
next
  show "ranged 0 = Num 0" by (simp add: ranged_def)
next
  show "ranged 1 = Num 1" by (simp add: ranged_def)
next
  fix n v
  assume "ranged (of_int n) = Num v"
  then show "v = of_int \<lfloor>v\<rfloor>" by (rule ranged_whole)
next
  fix x v
  assume "ranged x = Num v"
  then show "ranged v = Num v" by (auto simp add: ranged_def split: if_splits)
qed

lemma sound_mono: "sound_rounding rnd \<Longrightarrow> x \<le> y \<Longrightarrow> fl_le (rnd x) (rnd y)"
  unfolding sound_rounding_def by blast

lemma sound_zero: "sound_rounding rnd \<Longrightarrow> rnd 0 = Num 0"
  unfolding sound_rounding_def by blast

lemma sound_one: "sound_rounding rnd \<Longrightarrow> rnd 1 = Num 1"
  unfolding sound_rounding_def by blast



lemma fl_le_Num_cases:
  "fl_le (Num c) a \<Longrightarrow> (\<exists>v. a = Num v \<and> c \<le> v) \<or> a = PosInf"
  by (cases a) simp_all

lemma rnd_ge_zero:
  assumes "sound_rounding rnd" and "0 \<le> x"
  shows "fl_le (Num 0) (rnd x)"
proof -
  have "fl_le (rnd 0) (rnd x)" using assms by (rule sound_mono)
  then show ?thesis by (simp add: sound_zero [OF assms(1)])
qed

lemma rnd_ge_one:
  assumes "sound_rounding rnd" and "1 \<le> x"
  shows "fl_le (Num 1) (rnd x)"
proof -
  have "fl_le (rnd 1) (rnd x)" using assms by (rule sound_mono)
  then show ?thesis by (simp add: sound_one [OF assms(1)])
qed

lemma rnd_le_one:
  assumes "sound_rounding rnd" and "x \<le> 1"
  shows "fl_le (rnd x) (Num 1)"
proof -
  have "fl_le (rnd x) (rnd 1)" using assms by (rule sound_mono)
  then show ?thesis by (simp add: sound_one [OF assms(1)])
qed

lemma rnd_not_NaN:
  assumes "sound_rounding rnd"
  shows "rnd x \<noteq> NaN"
proof
  assume "rnd x = NaN"
  moreover have "fl_le (rnd x) (rnd x)" using assms by (simp add: sound_mono)
  ultimately show False by simp
qed

lemma rnd_unit:
  assumes "sound_rounding rnd" and "0 \<le> x" and "x \<le> 1"
  shows "\<exists>v. rnd x = Num v \<and> 0 \<le> v \<and> v \<le> 1"
proof -
  have "fl_le (Num 0) (rnd x)" "fl_le (rnd x) (Num 1)"
    using assms by (simp_all add: rnd_ge_zero rnd_le_one)
  then show ?thesis by (cases "rnd x") simp_all
qed

lemma rnd_twelfth:
  assumes "sound_rounding rnd"
  shows "\<exists>d. fl_div rnd (Num 1) (Num 12) = Num d \<and> 0 \<le> d \<and> d \<le> 1"
  using rnd_unit [OF assms, of "1 / 12"] by simp

lemma int_to_float_cases:
  "int_to_float rnd n = Inl OverflowError \<or> (\<exists>k. int_to_float rnd n = Inr (Num k) \<and> rnd (of_int n) = Num k)"
  by (cases "rnd (of_int n)") (simp_all add: int_to_float_def finite_or_raise_def)

lemma int_to_float_ge_one:
  assumes "sound_rounding rnd" and "1 \<le> n" and "int_to_float rnd n = Inr (Num k)"
  shows "1 \<le> k"
proof -
  have "rnd (of_int n) = Num k"
    using assms(3) by (cases "rnd (of_int n)") (simp_all add: int_to_float_def finite_or_raise_def)
  moreover have "fl_le (Num 1) (rnd (of_int n))"
    using assms(1,2) by (simp add: rnd_ge_one)
  ultimately show ?thesis by simp
qed


section \<open>Properties of the valuation engine\<close>

subsection \<open>Powers\<close>

lemma finite_or_raise_cases:
  "finite_or_raise p = (if is_num p then Inr p else Inl OverflowError)"
  by (cases p) (simp_all add: finite_or_raise_def)

text \<open>On a non-negative base and exponent a power is a float, or overflows.\<close>

lemma py_pow_nonneg:
  assumes "fl_le (Num 0) a" and "0 \<le> y"
  shows "py_pow rnd a (Num y) = and_then (pow_or_overflow rnd a (Num y)) (\<lambda>p. Inr (PyFloat p))"
proof (cases a)
  case (Num x)
  then have "0 \<le> x" using assms(1) by simp
  then show ?thesis
    using assms(2) Num
    by (simp add: pow_or_overflow_def finite_or_raise_cases and_then_def)
qed (simp_all add: pow_or_overflow_def and_then_def)

lemma pow_ge_one:
  assumes rnd: "sound_rounding rnd" and a: "fl_le (Num 1) a" and y: "0 \<le> y"
    and p: "pow_or_overflow rnd a (Num y) = Inr p"
  shows "fl_le (Num 1) p"
proof (cases a)
  case (Num x)
  then have x: "1 \<le> x" using a by simp
  show ?thesis
  proof (cases "y = 0 \<or> x = 1")
    case True
    then show ?thesis using p Num by (auto simp add: pow_or_overflow_def split: if_splits)
  next
    case False
    then have "fl_pow rnd a (Num y) = rnd (x powr y)"
      using x Num by simp
    moreover have "1 \<le> x powr y"
      using x y by (simp add: ge_one_powr_ge_zero)
    ultimately have "fl_le (Num 1) (fl_pow rnd a (Num y))"
      using rnd by (simp add: rnd_ge_one)
    then show ?thesis using p by (auto simp add: pow_or_overflow_def split: if_splits)
  qed
next
  case PosInf
  then show ?thesis using p y by (auto simp add: pow_or_overflow_def split: if_splits)
next
  case NegInf
  then show ?thesis using a by simp
next
  case NaN
  then show ?thesis using a by simp
qed

lemma fl_sub_one_ge:
  assumes "sound_rounding rnd" and "fl_le (Num 1) p"
  shows "fl_le (Num 0) (fl_sub rnd p (Num 1))"
proof (cases p)
  case (Num v)
  then have "0 \<le> v - 1" using assms(2) by simp
  then show ?thesis using Num rnd_ge_zero [OF assms(1)] by (simp add: fl_sub_def)
qed (use assms(2) in \<open>simp_all add: fl_sub_def\<close>)

lemma fl_add_one_ge:
  assumes "sound_rounding rnd" and "fl_le (Num 0) m"
  shows "fl_le (Num 1) (fl_add rnd (Num 1) m)"
proof (cases m)
  case (Num v)
  then have "1 \<le> 1 + v" using assms(2) by simp
  then show ?thesis using Num rnd_ge_one [OF assms(1)] by simp
qed (use assms(2) in simp_all)

lemma fl_add_one_rate:
  assumes "sound_rounding rnd" and "0 \<le> r"
  shows "fl_le (Num 1) (fl_add rnd (Num 1) (Num r))"
  using fl_add_one_ge [OF assms(1), of "Num r"] assms(2) by simp

lemma pow_or_overflow_cases:
  "pow_or_overflow rnd a b = Inl OverflowError \<or> (\<exists>p. pow_or_overflow rnd a b = Inr p)"
  by (simp add: pow_or_overflow_def)

lemma div_by_int_pos:
  assumes "sound_rounding rnd" and "1 \<le> n"
  shows "div_by_int rnd x n = and_then (int_to_float rnd n) (\<lambda>d. Inr (PyFloat (fl_div rnd x d)))"
proof -
  consider "int_to_float rnd n = Inl OverflowError"
    | k where "int_to_float rnd n = Inr (Num k)"
    using int_to_float_cases [of rnd n] by blast
  then show ?thesis
  proof cases
    case 1
    then show ?thesis by (simp add: div_by_int_def and_then_def)
  next
    case (2 k)
    then have "1 \<le> k" using assms by (simp add: int_to_float_ge_one)
    then show ?thesis using 2 by (simp add: div_by_int_def and_then_def py_div_def)
  qed
qed

lemma monthly_rate_of_pos:
  assumes rnd: "sound_rounding rnd" and r: "0 \<le> r"
  shows "\<exists>d. 0 \<le> d \<and> fl_div rnd (Num 1) (Num 12) = Num d \<and>
           monthly_rate_of rnd r =
             and_then (pow_or_overflow rnd (fl_add rnd (Num 1) (Num r)) (Num d))
               (\<lambda>p. Inr (PyFloat (fl_sub rnd p (Num 1))))"
proof -
  obtain d where d: "fl_div rnd (Num 1) (Num 12) = Num d" "0 \<le> d"
    using rnd_twelfth [OF rnd] by blast
  have "fl_le (Num 0) (fl_add rnd (Num 1) (Num r))"
    using fl_add_one_rate [OF rnd r] by (cases "fl_add rnd (Num 1) (Num r)") simp_all
  then have "py_pow rnd (fl_add rnd (Num 1) (Num r)) (Num d) =
      and_then (pow_or_overflow rnd (fl_add rnd (Num 1) (Num r)) (Num d)) (\<lambda>p. Inr (PyFloat p))"
    using d(2) by (rule py_pow_nonneg)
  then have "monthly_rate_of rnd r =
      and_then (pow_or_overflow rnd (fl_add rnd (Num 1) (Num r)) (Num d))
        (\<lambda>p. Inr (PyFloat (fl_sub rnd p (Num 1))))"
    unfolding monthly_rate_of_def d(1)
    by (simp add: and_then_def split: sum.splits)
  then show ?thesis using d by blast
qed

text \<open>
  The source function against the specification's case distinction, for every sound
  rounding.
\<close>

lemma calculate_monthly_investment_eq:
  assumes rnd: "sound_rounding rnd"
  shows "calculate_monthly_investment rnd F r years =
           and_then (monthly_contribution_spec rnd F r years) (\<lambda>v. Inr (PyFloat v))"
proof -
  consider "years \<le> 0" | "0 < years" "r \<le> 0" | "0 < years" "0 < r" by linarith
  then show ?thesis
  proof cases
    case 1
    then show ?thesis
      by (simp add: calculate_monthly_investment_def monthly_contribution_spec_def and_then_def)
  next
    case 2
    then have "1 \<le> years * 12" by simp
    then have "div_by_int rnd (Num F) (years * 12) =
        and_then (int_to_float rnd (years * 12)) (\<lambda>d. Inr (PyFloat (fl_div rnd (Num F) d)))"
      using rnd by (simp add: div_by_int_pos)
    then show ?thesis
      using 2
      by (simp add: calculate_monthly_investment_def monthly_contribution_spec_def and_then_def
            mult.commute split: sum.splits)
  next
    case 3
    define base where "base = fl_add rnd (Num 1) (Num r)"
    have months: "1 \<le> years * 12" using 3 by simp
    have base: "fl_le (Num 1) base"
      unfolding base_def by (rule fl_add_one_rate [OF rnd]) (use 3 in simp)
    obtain d where d: "0 \<le> d" "fl_div rnd (Num 1) (Num 12) = Num d"
      and rate: "monthly_rate_of rnd r =
        and_then (pow_or_overflow rnd base (Num d)) (\<lambda>p. Inr (PyFloat (fl_sub rnd p (Num 1))))"
      unfolding base_def using monthly_rate_of_pos [OF rnd, of r] 3(2) by auto
    have split_even: "div_by_int rnd (Num F) (years * 12) =
        and_then (int_to_float rnd (years * 12)) (\<lambda>d. Inr (PyFloat (fl_div rnd (Num F) d)))"
      using rnd months by (simp add: div_by_int_pos)
    consider "int_to_float rnd (years * 12) = Inl OverflowError"
      | k where "int_to_float rnd (years * 12) = Inr (Num k)"
      using int_to_float_cases [of rnd "years * 12"] by blast
    then show ?thesis
    proof cases
      case 1
      then show ?thesis
        using 3 pow_or_overflow_cases [of rnd base "Num d"]
        by (auto simp del: fl_add.simps fl_div.simps simp add: calculate_monthly_investment_def monthly_contribution_spec_def
              rate base_def [symmetric] d(2) and_then_def Let_def py_pow_int_def mult.commute)
    next
      case (2 k)
      then have k: "1 \<le> k" using rnd months by (simp add: int_to_float_ge_one)
      consider "pow_or_overflow rnd base (Num d) = Inl OverflowError"
        | p where "pow_or_overflow rnd base (Num d) = Inr p"
        using pow_or_overflow_cases [of rnd base "Num d"] by blast
      then show ?thesis
      proof cases
        case 1
        then show ?thesis
          using 3 2
          by (simp del: fl_add.simps fl_div.simps add: calculate_monthly_investment_def monthly_contribution_spec_def
                rate base_def [symmetric] d(2) and_then_def mult.commute)
      next
        case (2 p)
        define mr where "mr = fl_sub rnd p (Num 1)"
        define g where "g = fl_add rnd (Num 1) (fl_sub rnd p (Num 1))"
        have p: "fl_le (Num 1) p" using rnd base d(1) 2 by (rule pow_ge_one)
        have mr: "fl_le (Num 0) mr" unfolding mr_def using rnd p by (rule fl_sub_one_ge)
        have g: "fl_le (Num 1) g"
          unfolding g_def mr_def [symmetric] using rnd mr by (rule fl_add_one_ge)
        have "fl_le (Num 0) g" using g by (cases g) simp_all
        moreover have "0 \<le> k" using k by simp
        ultimately have pw: "py_pow rnd g (Num k) =
            and_then (pow_or_overflow rnd g (Num k)) (\<lambda>p. Inr (PyFloat p))"
          by (rule py_pow_nonneg)
        have lhs: "calculate_monthly_investment rnd F r years =
            and_then (pow_or_overflow rnd g (Num k)) (\<lambda>q.
              if fl_sub rnd q (Num 1) = Num 0
              then Inr (PyFloat (fl_div rnd (Num F) (Num k)))
              else num_div rnd (PyFloat (fl_mul rnd (Num F) (fl_sub rnd p (Num 1))))
                     (PyFloat (fl_sub rnd q (Num 1))))"
          using 3 \<open>int_to_float rnd (years * 12) = Inr (Num k)\<close> 2
          by (simp del: fl_add.simps fl_div.simps add: calculate_monthly_investment_def rate and_then_def Let_def
                py_pow_int_def pw g_def [symmetric] split_even
                split: sum.splits)
        have rhs: "monthly_contribution_spec rnd F r years =
            and_then (pow_or_overflow rnd g (Num k)) (\<lambda>q.
              Inr (if fl_sub rnd q (Num 1) = Num 0 then fl_div rnd (Num F) (Num k)
                   else fl_div rnd (fl_mul rnd (Num F) (fl_sub rnd p (Num 1)))
                          (fl_sub rnd q (Num 1))))"
          using 3 \<open>int_to_float rnd (years * 12) = Inr (Num k)\<close> 2
          by (simp del: fl_add.simps fl_div.simps add: monthly_contribution_spec_def base_def [symmetric] d(2) and_then_def
                Let_def g_def [symmetric] mult.commute)
        show ?thesis
          unfolding lhs rhs
          by (simp add: and_then_def py_div_def split: sum.splits)
      qed
    qed
  qed
qed

lemma monthly_contribution_spec_error:
  "monthly_contribution_spec rnd F r years = Inl e \<Longrightarrow> e = OverflowError"
  by (auto simp add: monthly_contribution_spec_def and_then_def int_to_float_def
        finite_or_raise_def pow_or_overflow_def Let_def split: if_splits sum.splits fl.splits)

subsection \<open>Exact arithmetic\<close>

lemma int_to_float_exact: "int_to_float exact n = Inr (Num (of_int n))"
  by (simp add: int_to_float_def finite_or_raise_def exact_def)

lemma py_pow_int_exact:
  assumes "0 < x" and "0 \<le> n"
  shows "py_pow_int exact (Num x) n = Inr (PyFloat (Num (x ^ nat n)))"
proof -
  have "x powr of_int n = x ^ nat n"
    using assms by (simp add: powr_real_of_int)
  then show ?thesis
    using assms
    by (auto simp add: py_pow_int_def int_to_float_exact and_then_def finite_or_raise_def
          exact_def)
qed



text \<open>
  C2: for every present value \<open>P\<close>, rate \<open>r > 0\<close> and whole number of years \<open>n > 0\<close>,
  discounting the compounded value gives \<open>P\<close> back: over exact arithmetic
  \<open>calculate_one_time_investment(calculate_future_value(P, r, n), r, n) = P\<close>, and
  neither call raises.
\<close>

theorem round_trip_exact:
  assumes "0 < r" and "0 < n"
  shows "\<exists>fv. calculate_future_value exact P r n = Inr (PyFloat (Num fv)) \<and>
              calculate_one_time_investment exact fv r n = Inr (PyFloat (Num P))"
proof -
  have pw: "py_pow_int exact (Num (1 + r)) n = Inr (PyFloat (Num ((1 + r) ^ nat n)))"
    using assms by (simp add: py_pow_int_exact)
  have base: "fl_add exact (Num 1) (Num r) = Num (1 + r)"
    by (simp add: exact_def)
  have "calculate_future_value exact P r n = Inr (PyFloat (Num (P * (1 + r) ^ nat n)))"
    unfolding calculate_future_value_def base pw by (simp add: and_then_def exact_def)
  moreover have "calculate_one_time_investment exact (P * (1 + r) ^ nat n) r n =
      Inr (PyFloat (Num P))"
    unfolding calculate_one_time_investment_def base pw
    using assms by (simp add: and_then_def py_div_def exact_def)
  ultimately show ?thesis by blast
qed

theorem round_trip_exact_witness:
  "(0::real) < 12 / 100 \<and> (0::int) < 5 \<and>
   (\<exists>fv. calculate_future_value exact 1000000 (12 / 100) 5 = Inr (PyFloat (Num fv)) \<and>
      calculate_one_time_investment exact fv (12 / 100) 5 = Inr (PyFloat (Num 1000000)))"
  using round_trip_exact [of "12 / 100" 5 1000000] by simp

subsection \<open>Overflow\<close>

lemma ranged_Num: "\<bar>x\<bar> < 2 ^ 1024 \<Longrightarrow> ranged x = Num x"
  by (simp add: ranged_def)

lemma ranged_PosInf: "2 ^ 1024 \<le> x \<Longrightarrow> ranged x = PosInf"
proof -
  assume a: "2 ^ 1024 \<le> x"
  have "(0::real) < 2 ^ 1024" by (rule zero_less_power) simp
  then have "0 < x" using a by linarith
  then show ?thesis using a by (simp add: ranged_def)
qed

lemma small_below_top:
  assumes "\<bar>x\<bar> \<le> 2 ^ 20"
  shows "\<bar>x::real\<bar> < 2 ^ 1024"
proof -
  have "(2::real) ^ 20 < 2 ^ 1024" by (rule power_strict_increasing) simp_all
  then show ?thesis using assms by linarith
qed

lemma compound_overflows: "(2::real) ^ 1024 \<le> (28 / 25) ^ 10000"
proof -
  have "(2::real) \<le> (28 / 25) ^ 7" by (simp add: power_divide)
  then have "(2::real) ^ 1024 \<le> ((28 / 25) ^ 7) ^ 1024" by (rule power_mono) simp
  also have "\<dots> = (28 / 25) ^ (7 * 1024)" by (rule power_mult [symmetric])
  also have "\<dots> \<le> (28 / 25) ^ 10000" by (rule power_increasing) simp_all
  finally show ?thesis .
qed

lemma monthly_investment_overflows:
  "calculate_monthly_investment ranged F (12 / 100) 10000 = Inl OverflowError"
proof -
  define v :: real where "v = (28 / 25) powr (1 / 12)"
  have v1: "1 < v" unfolding v_def by simp
  have "v \<le> (28 / 25) powr 1" unfolding v_def by (rule powr_mono) simp_all
  then have v2: "\<bar>v\<bar> \<le> 2 ^ 20" "\<bar>v - 1\<bar> \<le> 2 ^ 20" using v1 by simp_all
  have base: "fl_add ranged (Num 1) (Num (12 / 100)) = Num (28 / 25)"
    by (simp add: ranged_Num small_below_top)
  have e: "fl_div ranged (Num 1) (Num 12) = Num (1 / 12)"
    by (simp add: ranged_Num small_below_top)
  have rv: "ranged v = Num v" using v2 by (simp add: ranged_Num small_below_top)
  then have "fl_pow ranged (Num (28 / 25)) (Num (1 / 12)) = Num v"
    by (simp add: v_def [symmetric])
  then have p: "pow_or_overflow ranged (Num (28 / 25)) (Num (1 / 12)) = Inr (Num v)"
    by (simp add: pow_or_overflow_def)
  have mr: "fl_sub ranged (Num v) (Num 1) = Num (v - 1)"
    using v2 by (simp add: fl_sub_def ranged_Num small_below_top)
  have g: "fl_add ranged (Num 1) (Num (v - 1)) = Num v"
    using v2 by (simp add: ranged_Num small_below_top)
  have months: "int_to_float ranged (12 * 10000) = Inr (Num 120000)"
    by (simp add: int_to_float_def ranged_Num small_below_top finite_or_raise_def)
  have "v powr 120000 = (28 / 25) powr (1 / 12 * 120000)"
    unfolding v_def by (rule powr_powr)
  also have "\<dots> = (28 / 25) powr (real 10000)" by simp
  also have "\<dots> = (28 / 25) ^ 10000" by (rule powr_realpow) simp
  finally have "2 ^ 1024 \<le> v powr 120000" using compound_overflows by simp
  then have "fl_pow ranged (Num v) (Num 120000) = PosInf"
    using v1 by (simp add: ranged_PosInf)
  then have q: "pow_or_overflow ranged (Num v) (Num 120000) = Inl OverflowError"
    by (simp add: pow_or_overflow_def)
  have "monthly_contribution_spec ranged F (12 / 100) 10000 = Inl OverflowError"
    unfolding monthly_contribution_spec_def months base e
    by (simp add: and_then_def p mr g q rv)
  then show ?thesis
    by (simp add: calculate_monthly_investment_eq [OF sound_ranged] and_then_def)
qed

text \<open>
  The claim C6 as stated fails, in the words "never raises": with an expected return of
  12 percent over 10000 years the power \<open>(1 + monthly_rate) ** months\<close> is out of the
  floats' range and Python raises OverflowError.
\<close>

theorem monthly_investment_overflow_counterexample:
  "calculate_monthly_investment ranged 1000000 (12 / 100) 10000 = Inl OverflowError"
  by (rule monthly_investment_overflows)

text \<open>
  C6 (as amended): under every sound rounding \<open>calculate_monthly_investment\<close> raises
  nothing but OverflowError, which it raises when the number of months or one of the two
  powers is out of the floats' range; otherwise it returns a float, the one the
  specification's case distinction names: the target unchanged when \<open>years \<le> 0\<close>; the
  even split over \<open>years * 12\<close> months when \<open>years > 0\<close> and the rate is not positive;
  the even split when the annuity denominator is zero; and
  \<open>F * monthlyRate / denominator\<close> otherwise.
\<close>

theorem monthly_investment_fallbacks:
  assumes "sound_rounding rnd"
  shows "calculate_monthly_investment rnd F r years =
           and_then (monthly_contribution_spec rnd F r years) (\<lambda>v. Inr (PyFloat v)) \<and>
         (case calculate_monthly_investment rnd F r years of
            Inl e \<Rightarrow> e = OverflowError
          | Inr v \<Rightarrow> is_float v)"
proof -
  have eq: "calculate_monthly_investment rnd F r years =
      and_then (monthly_contribution_spec rnd F r years) (\<lambda>v. Inr (PyFloat v))"
    using assms by (rule calculate_monthly_investment_eq)
  show ?thesis
  proof (cases "monthly_contribution_spec rnd F r years")
    case (Inl e)
    then have "e = OverflowError" by (rule monthly_contribution_spec_error)
    then show ?thesis using eq Inl by (simp add: and_then_def)
  next
    case (Inr v)
    then show ?thesis using eq by (simp add: and_then_def)
  qed
qed

theorem monthly_investment_fallbacks_witness:
  "sound_rounding ranged \<and>
   calculate_monthly_investment ranged 1000000 (12 / 100) 5 =
     and_then (monthly_contribution_spec ranged 1000000 (12 / 100) 5) (\<lambda>v. Inr (PyFloat v)) \<and>
   (case calculate_monthly_investment ranged 1000000 (12 / 100) 5 of
      Inl e \<Rightarrow> e = OverflowError
    | Inr v \<Rightarrow> is_float v)"
  by (rule conjI [OF sound_ranged monthly_investment_fallbacks [OF sound_ranged]])

subsection \<open>The growth curve\<close>











subsection \<open>Totality\<close>








lemma to_complex_add:
  "\<not> is_float a \<or> \<not> is_float b \<Longrightarrow> to_complex (num_add rnd a b) = to_complex a + to_complex b"
  by (cases a; cases b) simp_all

lemma to_complex_mul:
  "\<not> is_float a \<or> \<not> is_float b \<Longrightarrow> to_complex (num_mul rnd a b) = to_complex a * to_complex b"
  by (cases a; cases b) simp_all

lemma num_imag_to_complex: "\<not> is_float v \<Longrightarrow> num_imag v = Im (to_complex v)"
  by (cases v) simp_all










section \<open>Properties of the static recommendation tables\<close>

lemma recommend_stocks_eq:
  "recommend_stocks rp g a =
     Inr (if rp = ''Conservative'' then
            [''TCS.NS'', ''HINDUNILVR.NS'', ''NESTLEIND.NS'', ''SUNPHARMA.NS'', ''BAJAJFINSV.NS'']
          else if rp = ''Aggressive'' then
            [''RELIANCE.NS'', ''TATAMOTORS.NS'', ''TATASTEEL.NS'', ''JINDALSTEL.NS'', ''SBIN.NS'']
          else
            [''INFY.NS'', ''RELIANCE.NS'', ''HDFCBANK.NS'', ''ICICIBANK.NS'', ''KOTAKBANK.NS''])"
  by (simp add: recommend_stocks_def Let_def stock_risk_mappings_def stock_universe_def dict_get_def)

lemma recommend_mutual_funds_eq:
  "recommend_mutual_funds rp g a =
     Inr (if rp = ''Conservative'' then
            [''HDFCDBT.BO'', ''ICBPRUD.BO'', ''AXBBND.BO'', ''SMCBALQ.BO'', ''TBABRG.BO'']
          else if rp = ''Aggressive'' then
            [''HDFCMQ.BO'', ''ICICGR.BO'', ''NIPPCQ.BO'', ''KOTSMQ.BO'', ''AXISSQ.BO'']
          else
            [''HDFCSF.BO'', ''ICBPBAQ.BO'', ''KOTBLD.BO'', ''UTSMCP.BO'', ''AXISMQ.BO''])"
  by (simp add: recommend_mutual_funds_def mf_universe_def dict_get_def)

text \<open>
  C9: for every risk profile, \<open>recommend_stocks\<close> and \<open>recommend_mutual_funds\<close> each
  return a list of exactly five tickers, and the list is the same for any two goal types
  and any two amounts: the goal adjustments never reach the result.
\<close>

theorem static_lists_depend_on_profile_only:
  "(\<exists>ts. recommend_stocks rp g a = Inr ts \<and> length ts = 5 \<and>
      recommend_stocks rp g' a' = Inr ts) \<and>
   (\<exists>ts. recommend_mutual_funds rp g a = Inr ts \<and> length ts = 5 \<and>
      recommend_mutual_funds rp g' a' = Inr ts)"
  by (simp add: recommend_stocks_eq recommend_mutual_funds_eq)

section \<open>Properties of the ranking engine\<close>

lemma collect_features_eq:
  "collect_features h fs =
     \<lparr>f_return = f_return fs @ map annual_return (filter (\<lambda>close. close \<noteq> []) (map snd h)),
      f_volatility = f_volatility fs @ map volatility (filter (\<lambda>close. close \<noteq> []) (map snd h)),
      f_sharpe = f_sharpe fs @ map sharpe (filter (\<lambda>close. close \<noteq> []) (map snd h)),
      f_max_dd = f_max_dd fs @ map drawdown (filter (\<lambda>close. close \<noteq> []) (map snd h))\<rparr>"
proof (induction h arbitrary: fs)
  case Nil
  show ?case by simp
next
  case (Cons p h)
  obtain ticker close where p: "p = (ticker, close)" by (cases p)
  show ?case
    by (simp add: p Cons.IH)
qed

lemma data_frame_raises:
  assumes "[] \<in> set (map snd h)"
  shows "data_frame (map fst h) (collect_features h no_features) = Inl ValueError"
proof -
  have "length (filter (\<lambda>close. close \<noteq> []) (map snd h)) < length (map snd h)"
    using assms by (intro length_filter_less) auto
  then show ?thesis
    by (simp add: data_frame_def collect_features_eq no_features_def)
qed


lemma empty_series_raises:
  assumes "[] \<in> set (map snd h)"
  shows "simple_ml_recommendation h rp = Inl ValueError"
proof -
  have "h \<noteq> []" using assms by auto
  then show ?thesis
    by (simp add: simple_ml_recommendation_def score_table_def normalized_features_def
          data_frame_raises [OF assms] and_then_def)
qed

text \<open>
  C1: the claim is that a mapping mixing empty and non-empty tables yields a ranking of
  the non-empty ones. The loop does skip the empty table, but the ticker column is built
  from all keys, so the data frame gets columns of different lengths and its
  construction raises ValueError: here for an empty table \<open>A\<close> beside a table \<open>B\<close> of
  three closes.
\<close>

theorem mixed_input_raises:
  "simple_ml_recommendation [(''A'', []), (''B'', [1, 2, 3])] ''Moderate'' = Inl ValueError"
  by (rule empty_series_raises) simp

lemma weights_get_eq:
  "weights_get rp =
     Inr (if rp = ''Conservative'' then
            \<lparr>w_return = 2 / 10, w_volatility = 4 / 10, w_sharpe = 3 / 10, w_max_dd = 1 / 10\<rparr>
          else if rp = ''Aggressive'' then
            \<lparr>w_return = 4 / 10, w_volatility = 2 / 10, w_sharpe = 3 / 10, w_max_dd = 1 / 10\<rparr>
          else
            \<lparr>w_return = 3 / 10, w_volatility = 3 / 10, w_sharpe = 3 / 10, w_max_dd = 1 / 10\<rparr>)"
  by (simp add: weights_get_def weights_def dict_get_def and_then_def)

text \<open>
  C10: for every risk-profile string other than Conservative, Moderate and Aggressive,
  each function that takes a risk profile returns what it returns for Moderate: the
  asset allocation, the five stocks, the five funds, the portfolio weights, the weight
  vector of the ranking, the score table and the ranking itself.
\<close>

theorem unknown_profile_is_moderate:
  assumes "rp \<notin> {''Conservative'', ''Moderate'', ''Aggressive''}"
  shows "calculate_asset_allocation rp amount = calculate_asset_allocation ''Moderate'' amount \<and>
         recommend_stocks rp g a = recommend_stocks ''Moderate'' g a \<and>
         recommend_mutual_funds rp g a = recommend_mutual_funds ''Moderate'' g a \<and>
         get_portfolio_weights ts rp = get_portfolio_weights ts ''Moderate'' \<and>
         weights_get rp = weights_get ''Moderate'' \<and>
         score_table h rp = score_table h ''Moderate'' \<and>
         simple_ml_recommendation h rp = simple_ml_recommendation h ''Moderate''"
proof -
  have w: "weights_get rp = weights_get ''Moderate''"
    using assms by (simp add: weights_get_eq)
  have "recommend_stocks rp g a = recommend_stocks ''Moderate'' g a"
    using assms by (simp add: recommend_stocks_def Let_def stock_risk_mappings_def
        stock_universe_def dict_get_def)
  moreover have "recommend_mutual_funds rp g a = recommend_mutual_funds ''Moderate'' g a"
    using assms by (simp add: recommend_mutual_funds_def Let_def mf_universe_def dict_get_def)
  moreover have "calculate_asset_allocation rp amount = calculate_asset_allocation ''Moderate'' amount"
    using assms by (simp add: calculate_asset_allocation_def)
  moreover have "get_portfolio_weights ts rp = get_portfolio_weights ts ''Moderate''"
    by (simp add: get_portfolio_weights_def)
  ultimately show ?thesis
    by (simp add: w simple_ml_recommendation_def score_table_def)
qed

theorem unknown_profile_is_moderate_witness:
  "calculate_asset_allocation ''Balanced'' 1000 = calculate_asset_allocation ''Moderate'' 1000 \<and>
   recommend_stocks ''Balanced'' ''Retirement'' 1000 = recommend_stocks ''Moderate'' ''Retirement'' 1000 \<and>
   recommend_mutual_funds ''Balanced'' ''Retirement'' 1000 =
     recommend_mutual_funds ''Moderate'' ''Retirement'' 1000 \<and>
   weights_get ''Balanced'' = weights_get ''Moderate'' \<and>
   simple_ml_recommendation [(''A'', [1, 2, 4]), (''B'', [4, 2, 1])] ''Balanced'' =
     simple_ml_recommendation [(''A'', [1, 2, 4]), (''B'', [4, 2, 1])] ''Moderate''"
  using unknown_profile_is_moderate [of "''Balanced''" 1000 "''Retirement''" 1000 "[]"
      "[(''A'', [1, 2, 4]), (''B'', [4, 2, 1])]"]
  by simp









lemma length_cummax_from: "length (cummax_from m cs) = length cs"
  by (induction cs arbitrary: m) simp_all

lemma length_cummax: "length (cummax cs) = length cs"
  by (cases cs) (simp_all add: length_cummax_from)


















subsection \<open>Ties\<close>














subsection \<open>An increasing against a decreasing series\<close>











lemma cummax_from_decreasing:
  "list_all (\<lambda>c. c \<le> m) cs \<Longrightarrow> cummax_from m cs = replicate (length cs) m"
  by (induction cs) (simp_all add: max.absorb1)























end
